theory Spec2Isabelle
  imports Main
begin

section \<open>The retrying network call of the AURA client\<close>

text \<open>
  The source (\<^verbatim>\<open>src/unnamed/part_000\<close>, lines 135 to 147):
  \<^verbatim>\<open>
  const fetchWithRetry = async (url, options, retries = 5, backoff = 1000) => {
    try {
      const res = await fetch(url, options);
      if (!res.ok) throw new Error(`HTTP ${res.status}`);
      return await res.json();
    } catch (err) {
      if (retries > 0) {
        await new Promise(r => setTimeout(r, backoff));
        return fetchWithRetry(url, options, retries - 1, backoff * 2);
      }
      throw err;
    }
  };
  \<close>
  The function is embedded with its two effects made explicit: every call of
  \<^verbatim>\<open>fetch\<close> and every call of \<^verbatim>\<open>setTimeout\<close> is appended to a trace of events, and
  the platform's \<^verbatim>\<open>fetch\<close> is a parameter that answers from the trace so far, so that
  it may answer differently on every attempt. A rejected promise is the left summand of
  the result, a fulfilled one the right summand. The function need not return
  (\<^verbatim>\<open>retries - 1\<close> is \<^verbatim>\<open>retries\<close> again for a large or infinite \<^verbatim>\<open>retries\<close>), so its
  result is an option and \<open>None\<close> is the call that never settles.
\<close>

subsection \<open>JavaScript numbers\<close>

text \<open>
  \<^verbatim>\<open>retries\<close> and \<^verbatim>\<open>backoff\<close> are JavaScript numbers, IEEE 754 binary64 values. The
  finite values kept here are the integers (the retry budget is a count, the delay a
  number of milliseconds); next to them stand the two infinities and NaN. The zero
  has no sign here: nothing the function does tells \<^verbatim>\<open>-0\<close> from \<^verbatim>\<open>0\<close>.
\<close>

datatype js_number = Num int | PosInfinity | NegInfinity | NaN

text \<open>The number of binary digits of a natural number.\<close>

fun bit_length :: "nat \<Rightarrow> nat" where
  "bit_length a = (if a = 0 then 0 else Suc (bit_length (a div 2)))"

declare bit_length.simps [simp del]

text \<open>
  Rounding a magnitude to 53 significant binary digits, to the nearest such value and
  to the one with an even last digit when two are equally near. Below \<open>2 ^ 53\<close> every
  integer has 53 digits or fewer and is kept.
\<close>

definition round53 :: "nat \<Rightarrow> nat" where
  "round53 a =
     (if a < 2 ^ 53 then a
      else
        let e = bit_length a - 53;
            q = a div 2 ^ e;
            r = a mod 2 ^ e
        in (if 2 ^ e < 2 * r \<or> (2 * r = 2 ^ e \<and> odd q) then q + 1 else q) * 2 ^ e)"

text \<open>
  The JavaScript number that an exact integer result becomes: rounded, and infinite
  when the rounded magnitude reaches \<open>2 ^ 1024\<close>.
\<close>

definition to_double :: "int \<Rightarrow> js_number" where
  "to_double i =
     (let a = round53 (nat \<bar>i\<bar>)
      in if 2 ^ 1024 \<le> a then (if i < 0 then NegInfinity else PosInfinity)
         else Num (if i < 0 then - int a else int a))"

text \<open>The operators \<^verbatim>\<open>-\<close>, \<^verbatim>\<open>*\<close> and \<^verbatim>\<open>>\<close> on numbers.\<close>

fun js_minus :: "js_number \<Rightarrow> js_number \<Rightarrow> js_number" where
  "js_minus (Num a) (Num b) = to_double (a - b)"
| "js_minus NaN y = NaN"
| "js_minus x NaN = NaN"
| "js_minus PosInfinity PosInfinity = NaN"
| "js_minus NegInfinity NegInfinity = NaN"
| "js_minus PosInfinity y = PosInfinity"
| "js_minus NegInfinity y = NegInfinity"
| "js_minus (Num a) PosInfinity = NegInfinity"
| "js_minus (Num a) NegInfinity = PosInfinity"

fun js_times :: "js_number \<Rightarrow> js_number \<Rightarrow> js_number" where
  "js_times (Num a) (Num b) = to_double (a * b)"
| "js_times NaN y = NaN"
| "js_times x NaN = NaN"
| "js_times PosInfinity (Num b) =
     (if b = 0 then NaN else if 0 < b then PosInfinity else NegInfinity)"
| "js_times NegInfinity (Num b) =
     (if b = 0 then NaN else if 0 < b then NegInfinity else PosInfinity)"
| "js_times (Num a) PosInfinity =
     (if a = 0 then NaN else if 0 < a then PosInfinity else NegInfinity)"
| "js_times (Num a) NegInfinity =
     (if a = 0 then NaN else if 0 < a then NegInfinity else PosInfinity)"
| "js_times PosInfinity PosInfinity = PosInfinity"
| "js_times NegInfinity NegInfinity = PosInfinity"
| "js_times PosInfinity NegInfinity = NegInfinity"
| "js_times NegInfinity PosInfinity = NegInfinity"

fun js_greater :: "js_number \<Rightarrow> js_number \<Rightarrow> bool" where
  "js_greater (Num a) (Num b) = (b < a)"
| "js_greater NaN y = False"
| "js_greater x NaN = False"
| "js_greater PosInfinity PosInfinity = False"
| "js_greater PosInfinity y = True"
| "js_greater NegInfinity y = False"
| "js_greater (Num a) PosInfinity = False"
| "js_greater (Num a) NegInfinity = True"

subsection \<open>Data\<close>

text \<open>A JavaScript error object: its \<^verbatim>\<open>name\<close> and its \<^verbatim>\<open>message\<close>.\<close>

datatype js_error = JsError (name: string) (message: string)

text \<open>
  The \<^verbatim>\<open>options\<close> object the callers pass: \<^verbatim>\<open>method\<close> (here \<open>http_method\<close>),
  \<^verbatim>\<open>headers\<close> and \<^verbatim>\<open>body\<close>.
\<close>

record options =
  http_method :: string
  headers :: "(string \<times> string) list"
  body :: string

text \<open>
  A \<^verbatim>\<open>Response\<close>, as far as the function reads it: \<^verbatim>\<open>res.ok\<close>, \<^verbatim>\<open>res.status\<close>, and what
  awaiting \<^verbatim>\<open>res.json()\<close> gives, the decoded payload or the error it rejects with.
\<close>

record 'a response =
  ok :: bool
  status :: nat
  json :: "js_error + 'a"

text \<open>
  What the function does to the outside world, in order. The number recorded with a
  \<open>SetTimeout\<close> event is the delay handed to \<^verbatim>\<open>setTimeout\<close>.
\<close>

datatype event = Fetch string options | SetTimeout js_number

text \<open>
  The platform's \<^verbatim>\<open>fetch\<close>: given what has happened so far and the request, the promise
  rejects with an error or fulfils with a response.
\<close>

type_synonym 'a transport = "event list \<Rightarrow> string \<Rightarrow> options \<Rightarrow> js_error + 'a response"

subsection \<open>The template literal\<close>

text \<open>The decimal representation that \<^verbatim>\<open>${res.status}\<close> inserts into the message.\<close>

definition digit_char :: "nat \<Rightarrow> char" where
  "digit_char d = ''0123456789'' ! d"

fun string_of_nat :: "nat \<Rightarrow> string" where
  "string_of_nat n =
     (if n < 10 then [digit_char n]
      else string_of_nat (n div 10) @ [digit_char (n mod 10)])"

declare string_of_nat.simps [simp del]

subsection \<open>The function\<close>

text \<open>
  The \<^verbatim>\<open>try\<close> block of one invocation: the value it returns, or the error that reaches
  the \<^verbatim>\<open>catch\<close> clause. The three statements are inside the same \<^verbatim>\<open>try\<close>, and the
  result of \<^verbatim>\<open>res.json()\<close> is awaited there, so a rejection of any of them is caught.
\<close>

definition try_block :: "'a transport \<Rightarrow> event list \<Rightarrow> string \<Rightarrow> options \<Rightarrow> js_error + 'a" where
  "try_block fetch tr url opts =
     (case fetch tr url opts of
        Inl err \<Rightarrow> Inl err
      | Inr res \<Rightarrow>
          if \<not> ok res then Inl (JsError ''Error'' (''HTTP '' @ string_of_nat (status res)))
          else json res)"

partial_function (option) fetchWithRetry ::
  "'a transport \<Rightarrow> string \<Rightarrow> options \<Rightarrow> js_number \<Rightarrow> js_number \<Rightarrow> event list
     \<Rightarrow> ((js_error + 'a) \<times> event list) option"
where
  "fetchWithRetry fetch url opts retries backoff tr =
     (case try_block fetch tr url opts of
        Inr data \<Rightarrow> Some (Inr data, tr @ [Fetch url opts])
      | Inl err \<Rightarrow>
          if js_greater retries (Num 0) then
            fetchWithRetry fetch url opts (js_minus retries (Num 1)) (js_times backoff (Num 2))
              (tr @ [Fetch url opts, SetTimeout backoff])
          else Some (Inl err, tr @ [Fetch url opts]))"

text \<open>The default parameters \<^verbatim>\<open>retries = 5, backoff = 1000\<close>, which both callers rely on.\<close>

definition fetchWithRetry_default ::
  "'a transport \<Rightarrow> string \<Rightarrow> options \<Rightarrow> event list \<Rightarrow> ((js_error + 'a) \<times> event list) option" where
  "fetchWithRetry_default fetch url opts tr = fetchWithRetry fetch url opts (Num 5) (Num 1000) tr"

subsection \<open>Reading a trace\<close>

fun attempts :: "event list \<Rightarrow> (string \<times> options) list" where
  "attempts [] = []"
| "attempts (Fetch url opts # es) = (url, opts) # attempts es"
| "attempts (SetTimeout d # es) = attempts es"

fun delays :: "event list \<Rightarrow> js_number list" where
  "delays [] = []"
| "delays (Fetch url opts # es) = delays es"
| "delays (SetTimeout d # es) = d # delays es"

subsection \<open>A call observed up to a depth\<close>

text \<open>
  The same body, followed through at most \<open>depth\<close> nested invocations: the outcome,
  when the call has settled by then, and the trace so far in either case. It shows
  what a call has done at any moment, also a call that never settles, and it states
  how deep the recursion of \<open>fetchWithRetry\<close> goes.
\<close>

fun fetchWithRetry_bounded ::
  "nat \<Rightarrow> 'a transport \<Rightarrow> string \<Rightarrow> options \<Rightarrow> js_number \<Rightarrow> js_number \<Rightarrow> event list
     \<Rightarrow> (js_error + 'a) option \<times> event list"
where
  "fetchWithRetry_bounded 0 fetch url opts retries backoff tr = (None, tr)"
| "fetchWithRetry_bounded (Suc depth) fetch url opts retries backoff tr =
     (case try_block fetch tr url opts of
        Inr data \<Rightarrow> (Some (Inr data), tr @ [Fetch url opts])
      | Inl err \<Rightarrow>
          if js_greater retries (Num 0) then
            fetchWithRetry_bounded depth fetch url opts (js_minus retries (Num 1))
              (js_times backoff (Num 2)) (tr @ [Fetch url opts, SetTimeout backoff])
          else (Some (Inl err), tr @ [Fetch url opts]))"

text \<open>The result of an observed call that has settled.\<close>

definition settled ::
  "(js_error + 'a) option \<times> event list \<Rightarrow> ((js_error + 'a) \<times> event list) option" where
  "settled run = (case fst run of None \<Rightarrow> None | Some res \<Rightarrow> Some (res, snd run))"

subsection \<open>Vocabulary of the properties\<close>

text \<open>
  An answer of the transport that is a failure of the transport: the promise of
  \<^verbatim>\<open>fetch\<close> rejects, or the response has a status outside the success range.
\<close>

definition transport_fails :: "js_error + 'a response \<Rightarrow> bool" where
  "transport_fails r = (case r of Inl err \<Rightarrow> True | Inr res \<Rightarrow> \<not> ok res)"

text \<open>
  The events of \<open>m\<close> failed attempts in a row, each followed by its wait, the wait
  doubled by \<^verbatim>\<open>backoff * 2\<close> from one to the next.
\<close>

fun retry_events :: "string \<Rightarrow> options \<Rightarrow> js_number \<Rightarrow> nat \<Rightarrow> event list" where
  "retry_events url opts backoff 0 = []"
| "retry_events url opts backoff (Suc m) =
     Fetch url opts # SetTimeout backoff # retry_events url opts (js_times backoff (Num 2)) m"

text \<open>The number of attempts of a call that has settled.\<close>

definition attempt_count :: "((js_error + 'a) \<times> event list) option \<Rightarrow> nat option" where
  "attempt_count = map_option (length \<circ> attempts \<circ> snd)"


subsection \<open>Sample requests and transports\<close>

definition sample_url :: string where
  "sample_url = ''https://generativelanguage.googleapis.com/v1beta/models/m:generateContent''"

definition sample_options :: options where
  "sample_options =
     \<lparr>http_method = ''POST'', headers = [(''Content-Type'', ''application/json'')], body = ''{}''\<rparr>"

text \<open>No connectivity: every \<^verbatim>\<open>fetch\<close> rejects.\<close>

definition unreachable :: "string transport" where
  "unreachable tr url opts = Inl (JsError ''TypeError'' ''Failed to fetch'')"

text \<open>The endpoint answers 503 every time; the body would decode, were it read.\<close>

definition busy :: "string transport" where
  "busy tr url opts = Inr \<lparr>ok = False, status = 503, json = Inr ''{}''\<rparr>"

definition healthy :: "string transport" where
  "healthy tr url opts = Inr \<lparr>ok = True, status = 200, json = Inr ''{}''\<rparr>"

text \<open>Status 200 with a body that is not JSON.\<close>

definition garbled :: "string transport" where
  "garbled tr url opts =
     Inr \<lparr>ok = True, status = 200,
          json = Inl (JsError ''SyntaxError'' ''Unexpected end of JSON input'')\<rparr>"

text \<open>The first answer is garbled, every later one is fine.\<close>

definition garbled_once :: "string transport" where
  "garbled_once tr url opts =
     (if attempts tr = [] then garbled tr url opts else healthy tr url opts)"

text \<open>The first two calls find no connectivity, every later one is fine.\<close>

definition down_twice :: "string transport" where
  "down_twice tr url opts =
     (if length (attempts tr) < 2 then unreachable tr url opts else healthy tr url opts)"

section \<open>Properties\<close>

subsection \<open>JavaScript arithmetic\<close>



lemma round53_small: "a < 2 ^ 53 \<Longrightarrow> round53 a = a"
  by (simp add: round53_def)



lemma to_double_exact:
  assumes "\<bar>i\<bar> < 2 ^ 53"
  shows "to_double i = Num i"
proof -
  from assms have small: "nat \<bar>i\<bar> < 2 ^ 53" by simp
  then have r: "round53 (nat \<bar>i\<bar>) = nat \<bar>i\<bar>" by (rule round53_small)
  from small have "\<not> (2::nat) ^ 1024 \<le> nat \<bar>i\<bar>" by simp
  moreover have "(if i < 0 then - int (nat \<bar>i\<bar>) else int (nat \<bar>i\<bar>)) = i" by simp
  ultimately show ?thesis
    unfolding to_double_def Let_def r by (simp only: if_False)
qed




lemma js_minus_1_exact:
  assumes "0 < n" and "n \<le> 2 ^ 53"
  shows "js_minus (Num n) (Num 1) = Num (n - 1)"
  using assms by (simp add: to_double_exact)


text \<open>
  At \<open>2 ^ 53 + 2\<close> the subtraction \<^verbatim>\<open>retries - 1\<close> skips a value, and at \<open>2 ^ 53 + 4\<close>
  it gives \<^verbatim>\<open>retries\<close> back.
\<close>

lemma js_minus_skip: "js_minus (Num (2 ^ 53 + 2)) (Num 1) = Num (2 ^ 53)"
  by (simp add: to_double_def round53_def bit_length.simps Let_def)

lemma js_minus_stuck: "js_minus (Num (2 ^ 53 + 4)) (Num 1) = Num (2 ^ 53 + 4)"
  by (simp add: to_double_def round53_def bit_length.simps Let_def)

lemma not_greater_if_less: "js_greater (Num 0) retries \<Longrightarrow> \<not> js_greater retries (Num 0)"
  by (cases retries) simp_all

subsection \<open>Traces\<close>

lemma attempts_append: "attempts (xs @ ys) = attempts xs @ attempts ys"
  by (induction xs rule: attempts.induct) simp_all

lemma delays_append: "delays (xs @ ys) = delays xs @ delays ys"
  by (induction xs rule: delays.induct) simp_all

lemma attempts_retry_events:
  "attempts (retry_events url opts backoff m) = replicate m (url, opts)"
  by (induction m arbitrary: backoff) simp_all




lemma length_concat_exact:
  "length (concat (map (\<lambda>k. [Fetch url opts, SetTimeout (f k)]) ks)) = 2 * length ks"
  by (induction ks) simp_all


subsection \<open>One invocation\<close>

text \<open>One invocation, by the outcome of its \<^verbatim>\<open>try\<close> block and the budget.\<close>

lemma fetchWithRetry_returns:
  "try_block fetch tr url opts = Inr data \<Longrightarrow>
   fetchWithRetry fetch url opts retries backoff tr = Some (Inr data, tr @ [Fetch url opts])"
  by (subst fetchWithRetry.simps) simp

lemma fetchWithRetry_retries:
  "try_block fetch tr url opts = Inl err \<Longrightarrow> js_greater retries (Num 0) \<Longrightarrow>
   fetchWithRetry fetch url opts retries backoff tr =
     fetchWithRetry fetch url opts (js_minus retries (Num 1)) (js_times backoff (Num 2))
       (tr @ [Fetch url opts, SetTimeout backoff])"
  by (subst fetchWithRetry.simps) simp

lemma fetchWithRetry_throws:
  "try_block fetch tr url opts = Inl err \<Longrightarrow> \<not> js_greater retries (Num 0) \<Longrightarrow>
   fetchWithRetry fetch url opts retries backoff tr = Some (Inl err, tr @ [Fetch url opts])"
  by (subst fetchWithRetry.simps) simp

lemma fetchWithRetry_no_budget:
  assumes "\<not> js_greater retries (Num 0)"
  shows "fetchWithRetry fetch url opts retries backoff tr =
           Some (try_block fetch tr url opts, tr @ [Fetch url opts])"
proof (cases "try_block fetch tr url opts")
  case (Inl err)
  with assms show ?thesis by (simp add: fetchWithRetry_throws)
next
  case (Inr data)
  then show ?thesis by (simp add: fetchWithRetry_returns)
qed

lemma fetchWithRetry_bounded_retries:
  "try_block fetch tr url opts = Inl err \<Longrightarrow> js_greater retries (Num 0) \<Longrightarrow>
   fetchWithRetry_bounded (Suc depth) fetch url opts retries backoff tr =
     fetchWithRetry_bounded depth fetch url opts (js_minus retries (Num 1))
       (js_times backoff (Num 2)) (tr @ [Fetch url opts, SetTimeout backoff])"
  by simp

lemma try_block_failure:
  assumes "transport_fails (fetch tr url opts)"
  shows "\<exists>err. try_block fetch tr url opts = Inl err"
  using assms by (auto simp: transport_fails_def try_block_def split: sum.splits)

subsection \<open>A call and its observations\<close>

text \<open>A call observed settled has returned, with what was observed.\<close>

lemma bounded_settled:
  "fst (fetchWithRetry_bounded depth fetch url opts retries backoff tr) = Some res \<Longrightarrow>
   fetchWithRetry fetch url opts retries backoff tr =
     Some (res, snd (fetchWithRetry_bounded depth fetch url opts retries backoff tr))"
proof (induction depth arbitrary: retries backoff tr)
  case 0
  then show ?case by simp
next
  case (Suc depth)
  show ?case
  proof (cases "try_block fetch tr url opts")
    case (Inr data)
    then have "fetchWithRetry_bounded (Suc depth) fetch url opts retries backoff tr =
        (Some (Inr data), tr @ [Fetch url opts])"
      by simp
    with Suc.prems Inr show ?thesis by (auto simp: fetchWithRetry_returns)
  next
    case (Inl err)
    show ?thesis
    proof (cases "js_greater retries (Num 0)")
      case False
      with Inl have "fetchWithRetry_bounded (Suc depth) fetch url opts retries backoff tr =
          (Some (Inl err), tr @ [Fetch url opts])"
        by simp
      with Suc.prems Inl False show ?thesis by (auto simp: fetchWithRetry_throws)
    next
      case True
      with Inl have step: "fetchWithRetry_bounded (Suc depth) fetch url opts retries backoff tr =
          fetchWithRetry_bounded depth fetch url opts (js_minus retries (Num 1))
            (js_times backoff (Num 2)) (tr @ [Fetch url opts, SetTimeout backoff])"
        by simp
      from Suc.prems have "fst (fetchWithRetry_bounded depth fetch url opts (js_minus retries (Num 1))
            (js_times backoff (Num 2)) (tr @ [Fetch url opts, SetTimeout backoff])) = Some res"
        unfolding step .
      from Suc.IH [OF this] Inl True show ?thesis
        unfolding step by (simp add: fetchWithRetry_retries)
    qed
  qed
qed

text \<open>A call that returns is observed settled at some depth.\<close>

lemma returned_bounded:
  assumes ret: "fetchWithRetry fetch url opts retries backoff tr = Some r"
  shows "\<exists>depth. fetchWithRetry_bounded depth fetch url opts retries backoff tr = (Some (fst r), snd r)"
proof (rule fetchWithRetry.raw_induct [where P = "\<lambda>fetch url opts retries backoff tr r.
    \<exists>depth. fetchWithRetry_bounded depth fetch url opts retries backoff tr = (Some (fst r), snd r)",
    OF _ ret])
  fix self :: "'a transport \<Rightarrow> string \<Rightarrow> options \<Rightarrow> js_number \<Rightarrow> js_number \<Rightarrow> event list
      \<Rightarrow> ((js_error + 'a) \<times> event list) option"
  fix fetch url opts retries backoff tr r
  assume IH: "\<And>fetch url opts retries backoff tr r.
      self fetch url opts retries backoff tr = Some r \<Longrightarrow>
      \<exists>depth. fetchWithRetry_bounded depth fetch url opts retries backoff tr = (Some (fst r), snd r)"
  assume body: "(case try_block fetch tr url opts of
        Inl err \<Rightarrow>
          if js_greater retries (Num 0) then
            self fetch url opts (js_minus retries (Num 1)) (js_times backoff (Num 2))
              (tr @ [Fetch url opts, SetTimeout backoff])
          else Some (Inl err, tr @ [Fetch url opts])
      | Inr data \<Rightarrow> Some (Inr data, tr @ [Fetch url opts])) = Some r"
  show "\<exists>depth. fetchWithRetry_bounded depth fetch url opts retries backoff tr = (Some (fst r), snd r)"
  proof (cases "try_block fetch tr url opts")
    case (Inr data)
    with body have "fetchWithRetry_bounded (Suc 0) fetch url opts retries backoff tr = (Some (fst r), snd r)"
      by auto
    then show ?thesis ..
  next
    case (Inl err)
    show ?thesis
    proof (cases "js_greater retries (Num 0)")
      case False
      with Inl body have "fetchWithRetry_bounded (Suc 0) fetch url opts retries backoff tr = (Some (fst r), snd r)"
        by auto
      then show ?thesis ..
    next
      case True
      with Inl body have "self fetch url opts (js_minus retries (Num 1)) (js_times backoff (Num 2))
          (tr @ [Fetch url opts, SetTimeout backoff]) = Some r"
        by simp
      from IH [OF this] obtain depth where
        "fetchWithRetry_bounded depth fetch url opts (js_minus retries (Num 1))
           (js_times backoff (Num 2)) (tr @ [Fetch url opts, SetTimeout backoff]) = (Some (fst r), snd r)"
        by blast
      with Inl True have "fetchWithRetry_bounded (Suc depth) fetch url opts retries backoff tr = (Some (fst r), snd r)"
        by simp
      then show ?thesis ..
    qed
  qed
qed

text \<open>
  The events of a call observed at any depth: some number \<open>m\<close> of failed attempts,
  each followed by its wait, and then, when the call has settled, a last attempt whose
  outcome is the result.
\<close>

lemma bounded_shape:
  "\<exists>m. snd (fetchWithRetry_bounded depth fetch url opts retries backoff tr) =
         tr @ retry_events url opts backoff m @
           (if fst (fetchWithRetry_bounded depth fetch url opts retries backoff tr) = None then []
            else [Fetch url opts]) \<and>
       (fst (fetchWithRetry_bounded depth fetch url opts retries backoff tr) = None \<or>
        fst (fetchWithRetry_bounded depth fetch url opts retries backoff tr) =
          Some (try_block fetch (tr @ retry_events url opts backoff m) url opts))"
proof (induction depth arbitrary: retries backoff tr)
  case 0
  show ?case by (intro exI [of _ 0]) simp
next
  case (Suc depth)
  show ?case
  proof (cases "try_block fetch tr url opts")
    case (Inr data)
    then show ?thesis by (intro exI [of _ 0]) simp
  next
    case (Inl err)
    show ?thesis
    proof (cases "js_greater retries (Num 0)")
      case False
      with Inl show ?thesis by (intro exI [of _ 0]) simp
    next
      case True
      let ?run = "fetchWithRetry_bounded depth fetch url opts (js_minus retries (Num 1))
          (js_times backoff (Num 2)) (tr @ [Fetch url opts, SetTimeout backoff])"
      from Inl True have step:
        "fetchWithRetry_bounded (Suc depth) fetch url opts retries backoff tr = ?run"
        by simp
      from Suc [of "js_minus retries (Num 1)" "js_times backoff (Num 2)"
          "tr @ [Fetch url opts, SetTimeout backoff]"]
      obtain m where
        "snd ?run = (tr @ [Fetch url opts, SetTimeout backoff]) @
            retry_events url opts (js_times backoff (Num 2)) m @
            (if fst ?run = None then [] else [Fetch url opts])"
        and "fst ?run = None \<or> fst ?run = Some (try_block fetch
            ((tr @ [Fetch url opts, SetTimeout backoff]) @
               retry_events url opts (js_times backoff (Num 2)) m) url opts)"
        by blast
      then show ?thesis
        unfolding step by (intro exI [of _ "Suc m"]) simp
    qed
  qed
qed

lemma returned_shape:
  assumes "fetchWithRetry fetch url opts retries backoff tr = Some r"
  shows "\<exists>m. snd r = tr @ retry_events url opts backoff m @ [Fetch url opts] \<and>
             fst r = try_block fetch (tr @ retry_events url opts backoff m) url opts"
proof -
  from returned_bounded [OF assms] obtain depth where
    run: "fetchWithRetry_bounded depth fetch url opts retries backoff tr = (Some (fst r), snd r)"
    by blast
  from bounded_shape [of depth fetch url opts retries backoff tr] show ?thesis
    unfolding run by simp
qed

text \<open>The trace of a call, observed at some depth or returned.\<close>

lemma trace_shape:
  assumes "T = snd (fetchWithRetry_bounded depth fetch url opts retries backoff tr) \<or>
           fetchWithRetry fetch url opts retries backoff tr = Some (res, T)"
  shows "\<exists>m. T = tr @ retry_events url opts backoff m \<or>
             T = tr @ retry_events url opts backoff m @ [Fetch url opts]"
  using assms
proof
  assume "T = snd (fetchWithRetry_bounded depth fetch url opts retries backoff tr)"
  with bounded_shape [of depth fetch url opts retries backoff tr] show ?thesis
    by (auto split: if_splits)
next
  assume "fetchWithRetry fetch url opts retries backoff tr = Some (res, T)"
  from returned_shape [OF this] show ?thesis by auto
qed

subsection \<open>A first attempt that succeeds\<close>

text \<open>
  C8. When the first attempt succeeds (the transport fulfils, the status is a success
  status and the body decodes), the function makes exactly one call of the transport,
  sets no timer, and returns the decoded payload as it is.
\<close>

theorem first_attempt_success:
  assumes "fetch tr url opts = Inr res" and "ok res" and "json res = Inr data"
  shows "fetchWithRetry fetch url opts retries backoff tr =
           Some (Inr data, tr @ [Fetch url opts])"
proof -
  from assms have "try_block fetch tr url opts = Inr data"
    by (simp add: try_block_def)
  then show ?thesis by (rule fetchWithRetry_returns)
qed

theorem first_attempt_success_witness:
  "healthy [] sample_url sample_options = Inr \<lparr>ok = True, status = 200, json = Inr ''{}''\<rparr>
   \<and> ok \<lparr>ok = True, status = 200, json = Inr ''{}''\<rparr>
   \<and> json \<lparr>ok = True, status = 200, json = Inr ''{}''\<rparr> = Inr ''{}''
   \<and> fetchWithRetry healthy sample_url sample_options (Num 5) (Num 1000) [] =
       Some (Inr ''{}'', [] @ [Fetch sample_url sample_options])"
  using first_attempt_success [where fetch = healthy and tr = "[]" and url = sample_url
      and opts = sample_options and res = "\<lparr>ok = True, status = 200, json = Inr ''{}''\<rparr>"
      and data = "''{}''" and retries = "Num 5" and backoff = "Num 1000"]
  by (simp add: healthy_def)

subsection \<open>A status outside the success range\<close>

text \<open>
  A rejected \<^verbatim>\<open>fetch\<close> reaches the \<^verbatim>\<open>catch\<close> clause with the transport's own error:
  the function waits and calls itself again while \<^verbatim>\<open>retries > 0\<close>, and throws the error
  otherwise.
\<close>

lemma transport_error_retryable:
  assumes "fetch tr url opts = Inl err"
  shows "fetchWithRetry fetch url opts retries backoff tr =
           (if js_greater retries (Num 0) then
              fetchWithRetry fetch url opts (js_minus retries (Num 1)) (js_times backoff (Num 2))
                (tr @ [Fetch url opts, SetTimeout backoff])
            else Some (Inl err, tr @ [Fetch url opts]))"
proof -
  from assms have "try_block fetch tr url opts = Inl err"
    by (simp add: try_block_def)
  then show ?thesis
    by (simp add: fetchWithRetry_retries fetchWithRetry_throws)
qed

text \<open>
  C5. An attempt whose response has a status outside the success range throws
  \<^verbatim>\<open>Error("HTTP <status>")\<close> before the body is read, so what is caught is that error
  whatever the body holds, never an error of decoding. It is then handled as the
  transport's own error is: with \<^verbatim>\<open>retries > 0\<close> the function waits \<open>backoff\<close> and
  tries again with \<^verbatim>\<open>retries - 1\<close> and \<^verbatim>\<open>backoff * 2\<close>; otherwise the error is thrown
  to the caller.
\<close>

theorem nonsuccess_status_retryable:
  assumes "fetch tr url opts = Inr res" and "\<not> ok res"
  shows "try_block fetch tr url opts =
           Inl (JsError ''Error'' (''HTTP '' @ string_of_nat (status res)))
         \<and> fetchWithRetry fetch url opts retries backoff tr =
             (if js_greater retries (Num 0) then
                fetchWithRetry fetch url opts (js_minus retries (Num 1)) (js_times backoff (Num 2))
                  (tr @ [Fetch url opts, SetTimeout backoff])
              else Some (Inl (JsError ''Error'' (''HTTP '' @ string_of_nat (status res))),
                         tr @ [Fetch url opts]))"
proof -
  from assms have "try_block fetch tr url opts =
      Inl (JsError ''Error'' (''HTTP '' @ string_of_nat (status res)))"
    by (simp add: try_block_def)
  then show ?thesis
    by (simp add: fetchWithRetry_retries fetchWithRetry_throws)
qed

theorem nonsuccess_status_retryable_witness:
  "busy [] sample_url sample_options = Inr \<lparr>ok = False, status = 503, json = Inr ''{}''\<rparr>
   \<and> \<not> ok \<lparr>ok = False, status = 503, json = Inr ''{}''\<rparr>
   \<and> try_block busy [] sample_url sample_options = Inl (JsError ''Error'' ''HTTP 503'')
   \<and> fetchWithRetry busy sample_url sample_options (Num 1) (Num 100) [] =
       fetchWithRetry busy sample_url sample_options (Num 0) (Num 200)
         [Fetch sample_url sample_options, SetTimeout (Num 100)]
   \<and> fetchWithRetry busy sample_url sample_options (Num 0) (Num 200)
         [Fetch sample_url sample_options, SetTimeout (Num 100)] =
       Some (Inl (JsError ''Error'' ''HTTP 503''),
        [Fetch sample_url sample_options, SetTimeout (Num 100), Fetch sample_url sample_options])"
  using nonsuccess_status_retryable [where fetch = busy and tr = "[]" and url = sample_url
      and opts = sample_options and res = "\<lparr>ok = False, status = 503, json = Inr ''{}''\<rparr>"
      and retries = "Num 1" and backoff = "Num 100"]
    nonsuccess_status_retryable [where fetch = busy
      and tr = "[Fetch sample_url sample_options, SetTimeout (Num 100)]" and url = sample_url
      and opts = sample_options and res = "\<lparr>ok = False, status = 503, json = Inr ''{}''\<rparr>"
      and retries = "Num 0" and backoff = "Num 200"]
  by (simp add: busy_def string_of_nat.simps digit_char_def to_double_exact)

subsection \<open>A body that does not decode\<close>

text \<open>
  C1, as the specification states it, does not hold: \<^verbatim>\<open>res.json()\<close> is awaited inside
  the \<^verbatim>\<open>try\<close> block, so its rejection is caught like every other. With one retry left
  and a transport whose first answer has status 200 and a body that is not JSON, the
  function waits 1000, calls the transport a second time and returns the second
  answer's payload; the decoding error never reaches the caller.
\<close>

theorem decoding_error_not_immediate:
  "garbled_once [] sample_url sample_options =
     Inr \<lparr>ok = True, status = 200,
          json = Inl (JsError ''SyntaxError'' ''Unexpected end of JSON input'')\<rparr>
   \<and> fetchWithRetry garbled_once sample_url sample_options (Num 1) (Num 1000) [] =
       Some (Inr ''{}'',
        [Fetch sample_url sample_options, SetTimeout (Num 1000), Fetch sample_url sample_options])
   \<and> fetchWithRetry garbled_once sample_url sample_options (Num 1) (Num 1000) [] \<noteq>
       Some (Inl (JsError ''SyntaxError'' ''Unexpected end of JSON input''),
        [Fetch sample_url sample_options])"
  by (simp add: fetchWithRetry.simps try_block_def garbled_once_def garbled_def healthy_def
      to_double_exact)

text \<open>
  C1, amended. When the transport fulfils with a success status and decoding the body
  fails, the decoding error is handled like any other failed attempt: with
  \<^verbatim>\<open>retries > 0\<close> the function waits \<open>backoff\<close> and tries again with \<^verbatim>\<open>retries - 1\<close>
  and \<^verbatim>\<open>backoff * 2\<close>; the decoding error is thrown to the caller, with no further
  attempt, only when \<^verbatim>\<open>retries > 0\<close> is false.
\<close>

theorem decoding_error_retried:
  assumes "fetch tr url opts = Inr res" and "ok res" and "json res = Inl err"
  shows "fetchWithRetry fetch url opts retries backoff tr =
           (if js_greater retries (Num 0) then
              fetchWithRetry fetch url opts (js_minus retries (Num 1)) (js_times backoff (Num 2))
                (tr @ [Fetch url opts, SetTimeout backoff])
            else Some (Inl err, tr @ [Fetch url opts]))"
proof -
  from assms have "try_block fetch tr url opts = Inl err"
    by (simp add: try_block_def)
  then show ?thesis
    by (simp add: fetchWithRetry_retries fetchWithRetry_throws)
qed

theorem decoding_error_retried_witness:
  "garbled [] sample_url sample_options =
     Inr \<lparr>ok = True, status = 200,
          json = Inl (JsError ''SyntaxError'' ''Unexpected end of JSON input'')\<rparr>
   \<and> ok \<lparr>ok = True, status = 200,
          json = (Inl (JsError ''SyntaxError'' ''Unexpected end of JSON input'') :: js_error + string)\<rparr>
   \<and> json \<lparr>ok = True, status = 200,
          json = (Inl (JsError ''SyntaxError'' ''Unexpected end of JSON input'') :: js_error + string)\<rparr>
       = Inl (JsError ''SyntaxError'' ''Unexpected end of JSON input'')
   \<and> fetchWithRetry garbled sample_url sample_options (Num 1) (Num 1000) [] =
       fetchWithRetry garbled sample_url sample_options (Num 0) (Num 2000)
         [Fetch sample_url sample_options, SetTimeout (Num 1000)]
   \<and> fetchWithRetry garbled sample_url sample_options (Num 0) (Num 1000) [] =
       Some (Inl (JsError ''SyntaxError'' ''Unexpected end of JSON input''),
        [Fetch sample_url sample_options])"
  using decoding_error_retried [where fetch = garbled and tr = "[]" and url = sample_url
      and opts = sample_options and retries = "Num 1" and backoff = "Num 1000"
      and res = "\<lparr>ok = True, status = 200,
          json = Inl (JsError ''SyntaxError'' ''Unexpected end of JSON input'')\<rparr>"
      and err = "JsError ''SyntaxError'' ''Unexpected end of JSON input''"]
    decoding_error_retried [where fetch = garbled and tr = "[]" and url = sample_url
      and opts = sample_options and retries = "Num 0" and backoff = "Num 1000"
      and res = "\<lparr>ok = True, status = 200,
          json = Inl (JsError ''SyntaxError'' ''Unexpected end of JSON input'')\<rparr>"
      and err = "JsError ''SyntaxError'' ''Unexpected end of JSON input''"]
  by (simp add: garbled_def to_double_exact)

subsection \<open>The number of attempts\<close>

text \<open>Within \<open>2 ^ 53\<close> the budget counts down exactly, and the call settles.\<close>

lemma bounded_within_budget:
  assumes "n \<le> 2 ^ 53" and "nat (max n 0) < depth"
  shows "fst (fetchWithRetry_bounded depth fetch url opts (Num n) backoff tr) \<noteq> None \<and>
         length (attempts (snd (fetchWithRetry_bounded depth fetch url opts (Num n) backoff tr)))
           \<le> length (attempts tr) + nat (max n 0) + 1"
  using assms
proof (induction depth arbitrary: n backoff tr)
  case 0
  then show ?case by simp
next
  case (Suc depth)
  show ?case
  proof (cases "try_block fetch tr url opts")
    case (Inr data)
    then show ?thesis by (simp add: attempts_append)
  next
    case (Inl err)
    show ?thesis
    proof (cases "0 < n")
      case False
      with Inl show ?thesis by (simp add: attempts_append)
    next
      case True
      with Suc.prems have dec: "js_minus (Num n) (Num 1) = Num (n - 1)"
        by (intro js_minus_1_exact)
      from True have "js_greater (Num n) (Num 0)" by simp
      with Inl have step:
        "fetchWithRetry_bounded (Suc depth) fetch url opts (Num n) backoff tr =
           fetchWithRetry_bounded depth fetch url opts (Num (n - 1)) (js_times backoff (Num 2))
             (tr @ [Fetch url opts, SetTimeout backoff])"
        by (simp only: fetchWithRetry_bounded_retries dec)
      from True Suc.prems have "n - 1 \<le> 2 ^ 53" and "nat (max (n - 1) 0) < depth"
        by simp_all
      from Suc.IH [OF this, of "js_times backoff (Num 2)" "tr @ [Fetch url opts, SetTimeout backoff]"]
        True show ?thesis
        unfolding step by (simp add: attempts_append nat_diff_distrib)
    qed
  qed
qed

lemma always_failing_run:
  assumes "\<forall>h. transport_fails (fetch h url opts)" and "0 \<le> n" and "n \<le> 2 ^ 53"
  shows "\<exists>err tr'. fetchWithRetry fetch url opts (Num n) backoff tr = Some (Inl err, tr') \<and>
           length (attempts tr') = length (attempts tr) + nat n + 1"
  using assms(2,3)
proof (induction "nat n" arbitrary: n backoff tr)
  case 0
  then have n: "n = 0" by simp
  from assms(1) obtain err where err: "try_block fetch tr url opts = Inl err"
    using try_block_failure by blast
  then have "fetchWithRetry fetch url opts (Num n) backoff tr = Some (Inl err, tr @ [Fetch url opts])"
    by (simp add: n fetchWithRetry_throws)
  then show ?case by (simp add: n attempts_append)
next
  case (Suc k)
  then have pos: "0 < n" and k: "k = nat (n - 1)" by simp_all
  from assms(1) obtain err where err: "try_block fetch tr url opts = Inl err"
    using try_block_failure by blast
  from pos Suc.prems have dec: "js_minus (Num n) (Num 1) = Num (n - 1)"
    by (intro js_minus_1_exact)
  from pos have "js_greater (Num n) (Num 0)" by simp
  with err have step: "fetchWithRetry fetch url opts (Num n) backoff tr =
      fetchWithRetry fetch url opts (Num (n - 1)) (js_times backoff (Num 2))
        (tr @ [Fetch url opts, SetTimeout backoff])"
    by (simp only: fetchWithRetry_retries dec)
  from pos Suc.prems have "0 \<le> n - 1" and "n - 1 \<le> 2 ^ 53" by simp_all
  from Suc.hyps(1) [OF k this] obtain err' tr' where
    "fetchWithRetry fetch url opts (Num (n - 1)) (js_times backoff (Num 2))
        (tr @ [Fetch url opts, SetTimeout backoff]) = Some (Inl err', tr')"
    and "length (attempts tr') =
        length (attempts (tr @ [Fetch url opts, SetTimeout backoff])) + nat (n - 1) + 1"
    by blast
  with pos show ?case
    unfolding step by (simp add: attempts_append nat_diff_distrib)
qed

lemma skipped_attempt_run:
  "attempt_count (fetchWithRetry unreachable sample_url sample_options
      (Num (2 ^ 53 + 2)) (Num 1000) []) = Some (2 ^ 53 + 2)"
proof -
  have fails: "\<forall>h. transport_fails (unreachable h sample_url sample_options)"
    by (simp add: transport_fails_def unreachable_def)
  then obtain err where err: "try_block unreachable [] sample_url sample_options = Inl err"
    using try_block_failure by blast
  have "js_greater (Num (2 ^ 53 + 2)) (Num 0)" by simp
  with err have step: "fetchWithRetry unreachable sample_url sample_options
        (Num (2 ^ 53 + 2)) (Num 1000) [] =
      fetchWithRetry unreachable sample_url sample_options (Num (2 ^ 53))
        (js_times (Num 1000) (Num 2))
        ([] @ [Fetch sample_url sample_options, SetTimeout (Num 1000)])"
    by (simp only: fetchWithRetry_retries js_minus_skip)
  from fails have "\<exists>err tr'. fetchWithRetry unreachable sample_url sample_options (Num (2 ^ 53))
        (js_times (Num 1000) (Num 2))
        ([] @ [Fetch sample_url sample_options, SetTimeout (Num 1000)]) = Some (Inl err, tr') \<and>
      length (attempts tr') =
        length (attempts ([] @ [Fetch sample_url sample_options, SetTimeout (Num 1000)]))
          + nat (2 ^ 53) + 1"
    by (rule always_failing_run) simp_all
  then obtain err' tr' where
    "fetchWithRetry unreachable sample_url sample_options (Num (2 ^ 53 + 2)) (Num 1000) [] =
       Some (Inl err', tr')"
    and "length (attempts tr') =
        length (attempts ([] @ [Fetch sample_url sample_options, SetTimeout (Num 1000)]))
          + nat (2 ^ 53) + 1"
    unfolding step by blast
  then show ?thesis
    by (simp add: attempt_count_def)
qed

text \<open>
  C2, as the specification states it, does not hold for every \<open>n \<ge> 0\<close>: the budget
  is a JavaScript number, and above \<open>2 ^ 53\<close> subtracting 1 from it is not exact. With
  \<open>n = 2 ^ 53 + 2\<close>, which is a JavaScript number, the first \<^verbatim>\<open>retries - 1\<close> is
  \<open>2 ^ 53\<close>, one count is skipped, and a transport that always fails is called \<open>n\<close>
  times, not \<open>n + 1\<close> times.
\<close>

theorem permanent_failure_skips_attempt:
  "to_double (2 ^ 53 + 2) = Num (2 ^ 53 + 2)
   \<and> attempt_count (fetchWithRetry unreachable sample_url sample_options
        (Num (2 ^ 53 + 2)) (Num 1000) []) = Some (2 ^ 53 + 2)"
proof
  show "to_double (2 ^ 53 + 2) = Num (2 ^ 53 + 2)"
    by (simp add: to_double_def round53_def bit_length.simps Let_def)
  show "attempt_count (fetchWithRetry unreachable sample_url sample_options
        (Num (2 ^ 53 + 2)) (Num 1000) []) = Some (2 ^ 53 + 2)"
    by (rule skipped_attempt_run)
qed

text \<open>
  C2, amended. For every integer \<open>n\<close> with \<open>0 \<le> n \<le> 2 ^ 53\<close> as \<^verbatim>\<open>retries\<close>,
  against a transport that fails on every attempt the function calls the transport
  exactly \<open>n + 1\<close> times and then throws; and whatever the transport (\<open>any_fetch\<close>)
  does, the call settles after at most \<open>n + 1\<close> calls of it.
\<close>

theorem permanent_failure_attempts:
  assumes "0 \<le> n" and "n \<le> 2 ^ 53" and "\<forall>h. transport_fails (fetch h url opts)"
  shows "(\<exists>err tr'. fetchWithRetry fetch url opts (Num n) backoff tr = Some (Inl err, tr')
            \<and> length (attempts tr') = length (attempts tr) + nat n + 1)
         \<and> (\<exists>res tr'. fetchWithRetry any_fetch url opts (Num n) backoff tr = Some (res, tr')
            \<and> length (attempts tr') \<le> length (attempts tr) + nat n + 1)"
proof -
  let ?run = "fetchWithRetry_bounded (Suc (nat n)) any_fetch url opts (Num n) backoff tr"
  from assms(1) have "nat (max n 0) < Suc (nat n)" by simp
  with assms(2) have "fst ?run \<noteq> None \<and>
      length (attempts (snd ?run)) \<le> length (attempts tr) + nat (max n 0) + 1"
    by (rule bounded_within_budget)
  then obtain res where res: "fst ?run = Some res"
    and le: "length (attempts (snd ?run)) \<le> length (attempts tr) + nat (max n 0) + 1"
    by blast
  from res have "fetchWithRetry any_fetch url opts (Num n) backoff tr = Some (res, snd ?run)"
    by (rule bounded_settled)
  moreover from assms(1) have "max n 0 = n" by simp
  ultimately have "\<exists>res tr'. fetchWithRetry any_fetch url opts (Num n) backoff tr = Some (res, tr')
      \<and> length (attempts tr') \<le> length (attempts tr) + nat n + 1"
    using le by auto
  moreover from assms(3,1,2)
  have "\<exists>err tr'. fetchWithRetry fetch url opts (Num n) backoff tr = Some (Inl err, tr')
      \<and> length (attempts tr') = length (attempts tr) + nat n + 1"
    by (rule always_failing_run)
  ultimately show ?thesis by blast
qed

theorem permanent_failure_attempts_witness:
  "(0::int) \<le> 2 \<and> (2::int) \<le> 2 ^ 53
   \<and> (\<forall>h. transport_fails (unreachable h sample_url sample_options))
   \<and> fetchWithRetry unreachable sample_url sample_options (Num 2) (Num 100) [] =
       Some (Inl (JsError ''TypeError'' ''Failed to fetch''),
             [Fetch sample_url sample_options, SetTimeout (Num 100),
              Fetch sample_url sample_options, SetTimeout (Num 200),
              Fetch sample_url sample_options])
   \<and> (\<exists>err tr'. fetchWithRetry unreachable sample_url sample_options (Num 2) (Num 100) [] =
          Some (Inl err, tr') \<and> length (attempts tr') = length (attempts []) + nat 2 + 1)
   \<and> (\<exists>res tr'. fetchWithRetry down_twice sample_url sample_options (Num 2) (Num 100) [] =
          Some (res, tr') \<and> length (attempts tr') \<le> length (attempts []) + nat 2 + 1)"
  using permanent_failure_attempts [where n = 2 and fetch = unreachable and url = sample_url
      and opts = sample_options and backoff = "Num 100" and tr = "[]" and any_fetch = down_twice]
  by (simp add: transport_fails_def unreachable_def fetchWithRetry.simps try_block_def
      to_double_exact)

text \<open>
  C7. With \<^verbatim>\<open>retries = 0\<close> and a transport that always fails, the function calls the
  transport once, throws the error of that attempt, and sets no timer.
\<close>

theorem no_retries_single_attempt:
  assumes "\<forall>h. transport_fails (fetch h url opts)"
  shows "fetchWithRetry fetch url opts (Num 0) backoff tr =
           Some (try_block fetch tr url opts, tr @ [Fetch url opts])
         \<and> isl (try_block fetch tr url opts)
         \<and> attempts (tr @ [Fetch url opts]) = attempts tr @ [(url, opts)]
         \<and> delays (tr @ [Fetch url opts]) = delays tr"
proof -
  have run: "fetchWithRetry fetch url opts (Num 0) backoff tr =
      Some (try_block fetch tr url opts, tr @ [Fetch url opts])"
    by (rule fetchWithRetry_no_budget) simp
  from assms have "transport_fails (fetch tr url opts)" by blast
  then obtain err where "try_block fetch tr url opts = Inl err"
    using try_block_failure by blast
  with run show ?thesis
    by (simp add: attempts_append delays_append)
qed

theorem no_retries_single_attempt_witness:
  "(\<forall>h. transport_fails (unreachable h sample_url sample_options))
   \<and> fetchWithRetry unreachable sample_url sample_options (Num 0) (Num 1000) [] =
       Some (Inl (JsError ''TypeError'' ''Failed to fetch''), [Fetch sample_url sample_options])
   \<and> attempts ([] @ [Fetch sample_url sample_options]) = [(sample_url, sample_options)]
   \<and> delays ([] @ [Fetch sample_url sample_options]) = []"
  using no_retries_single_attempt [where fetch = unreachable and url = sample_url
      and opts = sample_options and backoff = "Num 1000" and tr = "[]"]
  by (simp add: transport_fails_def try_block_def unreachable_def)

text \<open>
  C9. With a negative \<^verbatim>\<open>retries\<close> (a negative integer or \<^verbatim>\<open>-Infinity\<close>) the guard
  \<^verbatim>\<open>retries > 0\<close> is false: the function calls the transport once and delivers the
  outcome of that attempt, a failure included, without setting a timer, exactly as it
  does with \<^verbatim>\<open>retries = 0\<close>.
\<close>

theorem negative_retries_single_attempt:
  assumes "js_greater (Num 0) retries"
  shows "fetchWithRetry fetch url opts retries backoff tr =
           Some (try_block fetch tr url opts, tr @ [Fetch url opts])
         \<and> fetchWithRetry fetch url opts retries backoff tr =
             fetchWithRetry fetch url opts (Num 0) backoff tr
         \<and> attempts (tr @ [Fetch url opts]) = attempts tr @ [(url, opts)]
         \<and> delays (tr @ [Fetch url opts]) = delays tr"
proof -
  from assms have "\<not> js_greater retries (Num 0)" by (rule not_greater_if_less)
  then have "fetchWithRetry fetch url opts retries backoff tr =
      Some (try_block fetch tr url opts, tr @ [Fetch url opts])"
    by (rule fetchWithRetry_no_budget)
  moreover have "fetchWithRetry fetch url opts (Num 0) backoff tr =
      Some (try_block fetch tr url opts, tr @ [Fetch url opts])"
    by (rule fetchWithRetry_no_budget) simp
  ultimately show ?thesis
    by (simp add: attempts_append delays_append)
qed

theorem negative_retries_single_attempt_witness:
  "js_greater (Num 0) (Num (-3))
   \<and> fetchWithRetry unreachable sample_url sample_options (Num (-3)) (Num 1000) [] =
       Some (Inl (JsError ''TypeError'' ''Failed to fetch''), [Fetch sample_url sample_options])
   \<and> fetchWithRetry unreachable sample_url sample_options (Num (-3)) (Num 1000) [] =
       fetchWithRetry unreachable sample_url sample_options (Num 0) (Num 1000) []
   \<and> delays ([] @ [Fetch sample_url sample_options]) = []"
  using negative_retries_single_attempt [where retries = "Num (-3)" and fetch = unreachable
      and url = sample_url and opts = sample_options and backoff = "Num 1000" and tr = "[]"]
  by (simp add: fetchWithRetry.simps try_block_def unreachable_def)

subsection \<open>The waits and the requests\<close>





text \<open>
  C4. Every call of the transport that a call of the function makes, as far as the
  call is observed at any depth or when it has returned, is given the same \<open>url\<close> and
  the same \<open>options\<close>, those of the caller.
\<close>

theorem request_unchanged:
  assumes "T = snd (fetchWithRetry_bounded depth fetch url opts retries backoff tr) \<or>
           fetchWithRetry fetch url opts retries backoff tr = Some (res, T)"
  shows "attempts T =
           attempts tr @ replicate (length (attempts T) - length (attempts tr)) (url, opts)"
proof -
  from trace_shape [OF assms] obtain m where
    "T = tr @ retry_events url opts backoff m \<or>
     T = tr @ retry_events url opts backoff m @ [Fetch url opts]"
    by blast
  then obtain j where j: "attempts T = attempts tr @ replicate j (url, opts)"
  proof
    assume "T = tr @ retry_events url opts backoff m"
    then have "attempts T = attempts tr @ replicate m (url, opts)"
      by (simp add: attempts_append attempts_retry_events)
    then show ?thesis by (rule that)
  next
    assume "T = tr @ retry_events url opts backoff m @ [Fetch url opts]"
    then have "attempts T = attempts tr @ replicate (Suc m) (url, opts)"
      by (simp add: attempts_append attempts_retry_events replicate_append_same)
    then show ?thesis by (rule that)
  qed
  then have "length (attempts T) - length (attempts tr) = j" by simp
  with j show ?thesis by (simp only:)
qed

theorem request_unchanged_witness:
  "([Fetch sample_url sample_options, SetTimeout (Num 100),
     Fetch sample_url sample_options, SetTimeout (Num 200), Fetch sample_url sample_options] =
      snd (fetchWithRetry_bounded 3 busy sample_url sample_options (Num 2) (Num 100) []) \<or>
    fetchWithRetry busy sample_url sample_options (Num 2) (Num 100) [] =
      Some (Inl (JsError ''Error'' ''HTTP 503''),
        [Fetch sample_url sample_options, SetTimeout (Num 100),
         Fetch sample_url sample_options, SetTimeout (Num 200), Fetch sample_url sample_options]))
   \<and> attempts [Fetch sample_url sample_options, SetTimeout (Num 100),
         Fetch sample_url sample_options, SetTimeout (Num 200), Fetch sample_url sample_options] =
       attempts [] @
       replicate
         (length (attempts [Fetch sample_url sample_options, SetTimeout (Num 100),
            Fetch sample_url sample_options, SetTimeout (Num 200),
            Fetch sample_url sample_options]) - length (attempts []))
         (sample_url, sample_options)
   \<and> [Fetch sample_url sample_options, SetTimeout (Num 100)] =
       snd (fetchWithRetry_bounded (Suc 0) busy sample_url sample_options (Num 2) (Num 100) [])
   \<and> attempts [Fetch sample_url sample_options, SetTimeout (Num 100)] =
       attempts [] @
       replicate
         (length (attempts [Fetch sample_url sample_options, SetTimeout (Num 100)])
            - length (attempts []))
         (sample_url, sample_options)"
  using request_unchanged [where T = "[Fetch sample_url sample_options, SetTimeout (Num 100),
         Fetch sample_url sample_options, SetTimeout (Num 200), Fetch sample_url sample_options]"
      and depth = 3 and fetch = busy and url = sample_url and opts = sample_options
      and retries = "Num 2" and backoff = "Num 100" and tr = "[]"
      and res = "Inl (JsError ''Error'' ''HTTP 503'')"]
    request_unchanged [where T = "[Fetch sample_url sample_options, SetTimeout (Num 100)]"
      and depth = "Suc 0" and fetch = busy and url = sample_url and opts = sample_options
      and retries = "Num 2" and backoff = "Num 100" and tr = "[]"
      and res = "Inl (JsError ''Error'' ''HTTP 503'')"]
  by (simp add: fetchWithRetry.simps try_block_def busy_def string_of_nat.simps digit_char_def
      to_double_exact)

subsection \<open>What the caller receives\<close>



subsection \<open>Termination\<close>

lemma stuck_budget:
  assumes "\<forall>h. transport_fails (fetch h url opts)"
  shows "fst (fetchWithRetry_bounded depth fetch url opts (Num (2 ^ 53 + 4)) backoff tr) = None"
proof (induction depth arbitrary: backoff tr)
  case 0
  show ?case by (simp only: fetchWithRetry_bounded.simps fst_conv)
next
  case (Suc depth)
  from assms obtain err where err: "try_block fetch tr url opts = Inl err"
    using try_block_failure by blast
  have "js_greater (Num (2 ^ 53 + 4)) (Num 0)" by simp
  with err have "fetchWithRetry_bounded (Suc depth) fetch url opts (Num (2 ^ 53 + 4)) backoff tr =
      fetchWithRetry_bounded depth fetch url opts (Num (2 ^ 53 + 4)) (js_times backoff (Num 2))
        (tr @ [Fetch url opts, SetTimeout backoff])"
    by (simp only: fetchWithRetry_bounded_retries js_minus_stuck)
  then show ?case by (simp only: Suc)
qed

lemma stuck_budget_never_returns:
  assumes "\<forall>h. transport_fails (fetch h url opts)"
  shows "fetchWithRetry fetch url opts (Num (2 ^ 53 + 4)) backoff tr = None"
proof (cases "fetchWithRetry fetch url opts (Num (2 ^ 53 + 4)) backoff tr")
  case None
  then show ?thesis .
next
  case (Some r)
  from returned_bounded [OF this] obtain depth where
    run: "fetchWithRetry_bounded depth fetch url opts (Num (2 ^ 53 + 4)) backoff tr = (Some (fst r), snd r)"
    by blast
  from assms have "fst (fetchWithRetry_bounded depth fetch url opts (Num (2 ^ 53 + 4)) backoff tr) = None"
    by (rule stuck_budget)
  then show ?thesis unfolding run by (simp only: fst_conv option.distinct)
qed

lemma stuck_run:
  "fetchWithRetry unreachable sample_url sample_options (Num (2 ^ 53 + 4)) (Num 1000) [] = None"
proof -
  have "\<forall>h. transport_fails (unreachable h sample_url sample_options)"
    by (simp add: transport_fails_def unreachable_def)
  then show ?thesis
    by (rule stuck_budget_never_returns [where fetch = unreachable and url = sample_url
          and opts = sample_options])
qed

text \<open>
  C10, as the specification states it, does not hold for every integer: with
  \<^verbatim>\<open>retries\<close> at \<open>2 ^ 53 + 4\<close>, which is a JavaScript number, the recursive call is
  made with the same \<^verbatim>\<open>retries\<close>, and against a transport without connectivity the
  call never settles.
\<close>

theorem large_retries_never_settle:
  "to_double (2 ^ 53 + 4) = Num (2 ^ 53 + 4)
   \<and> fetchWithRetry unreachable sample_url sample_options (Num (2 ^ 53 + 4)) (Num 1000) [] = None"
proof
  show "to_double (2 ^ 53 + 4) = Num (2 ^ 53 + 4)"
    by (simp add: to_double_def round53_def bit_length.simps Let_def)
  show "fetchWithRetry unreachable sample_url sample_options (Num (2 ^ 53 + 4)) (Num 1000) [] = None"
    by (rule stuck_run)
qed

text \<open>
  C10, amended. For every integer \<open>n \<le> 2 ^ 53\<close> as \<^verbatim>\<open>retries\<close> and every transport the
  call settles: each recursive call is made only when \<^verbatim>\<open>retries > 0\<close> and with
  \<open>n - 1\<close>, so \<open>max n 0 + 1\<close> nested invocations are enough, and the call observed at
  that depth or deeper is the call itself.
\<close>

theorem fetchWithRetry_terminates:
  assumes "n \<le> 2 ^ 53" and "nat (max n 0) + 1 \<le> depth"
  shows "fetchWithRetry fetch url opts (Num n) backoff tr \<noteq> None
         \<and> fetchWithRetry fetch url opts (Num n) backoff tr =
             settled (fetchWithRetry_bounded depth fetch url opts (Num n) backoff tr)"
proof -
  let ?run = "fetchWithRetry_bounded depth fetch url opts (Num n) backoff tr"
  from assms(2) have "nat (max n 0) < depth" by simp
  with assms(1) have "fst ?run \<noteq> None \<and>
      length (attempts (snd ?run)) \<le> length (attempts tr) + nat (max n 0) + 1"
    by (rule bounded_within_budget)
  then obtain res where res: "fst ?run = Some res" by blast
  then have "fetchWithRetry fetch url opts (Num n) backoff tr = Some (res, snd ?run)"
    by (rule bounded_settled)
  with res show ?thesis by (simp add: settled_def)
qed

theorem fetchWithRetry_terminates_witness:
  "(2::int) \<le> 2 ^ 53 \<and> nat (max 2 0) + 1 \<le> (3::nat)
   \<and> fetchWithRetry unreachable sample_url sample_options (Num 2) (Num 100) [] \<noteq> None
   \<and> fetchWithRetry unreachable sample_url sample_options (Num 2) (Num 100) [] =
       settled (fetchWithRetry_bounded 3 unreachable sample_url sample_options (Num 2) (Num 100) [])
   \<and> settled (fetchWithRetry_bounded 3 unreachable sample_url sample_options (Num 2) (Num 100) []) =
       Some (Inl (JsError ''TypeError'' ''Failed to fetch''),
             [Fetch sample_url sample_options, SetTimeout (Num 100),
              Fetch sample_url sample_options, SetTimeout (Num 200),
              Fetch sample_url sample_options])"
  using fetchWithRetry_terminates [where n = 2 and depth = 3 and fetch = unreachable
      and url = sample_url and opts = sample_options and backoff = "Num 100" and tr = "[]"]
  by (simp add: numeral_3_eq_3 try_block_def unreachable_def settled_def to_double_exact)

text \<open>The bound is reached: against a transport that always fails, one unit less is not enough.\<close>

lemma depth_bound_is_reached:
  "settled (fetchWithRetry_bounded 2 unreachable sample_url sample_options (Num 2) (Num 100) []) = None"
  by (simp add: numeral_2_eq_2 try_block_def unreachable_def settled_def to_double_exact)

end
